theory Spec2Isabelle
  imports Complex_Main
begin

section \<open>smfc: the GPU zone of the fan controller (gpuzone.py)\<close>

text \<open>
  The theory embeds the class \<open>GpuZone\<close> of \<^verbatim>\<open>src/smfc/gpuzone.py\<close>: its constructor
  \<open>__init__\<close> (parsing of \<open>gpu_device_ids\<close>, allocation of the two cache lists) and the
  method \<open>_get_nth_temp\<close> (the cached temperature read).

  Conventions of the embedding:
  \<^item> Python exceptions are values of \<open>py_error\<close>; a call returns \<open>py_error + 'a\<close>.
  \<^item> Python \<open>float\<close> values (temperatures, monotonic time, polling interval) are exact
    rationals; rounding to binary64 is not modelled.
  \<^item> Python \<open>str\<close> is \<open>string\<close>, restricted to ASCII.
  \<^item> The object's mutable attributes are the record \<open>gpu_zone\<close>; a method takes the
    record and returns it updated, also when it raises (assignments made before the raise
    persist, as in Python).
  \<^item> The outside world (\<open>glob.glob\<close>, \<open>subprocess.run\<close>, and the builtin \<open>float\<close>) is
    the record \<open>env\<close>; the calls made to it are returned as a list of \<open>io_event\<close>.
\<close>

subsection \<open>Python builtins used by the class\<close>

datatype py_error = ValueError | IndexError | FileNotFoundError | KeyError

text \<open>ASCII characters for which \<open>str.isspace\<close> holds; \<open>str.strip()\<close> and \<open>int()\<close> remove them
  at both ends.\<close>

definition is_space :: "char \<Rightarrow> bool" where
  "is_space c =
     (c \<in> set [CHR 0x09, CHR 0x0A, CHR 0x0B, CHR 0x0C, CHR 0x0D,
                CHR 0x1C, CHR 0x1D, CHR 0x1E, CHR 0x1F, CHR '' ''])"

definition strip :: "string \<Rightarrow> string" where
  "strip s = rev (dropWhile is_space (rev (dropWhile is_space s)))"

text \<open>\<^verbatim>\<open>re.sub(" +", " ", s)\<close>: every maximal run of the space character becomes one space.\<close>

fun re_sub_spaces :: "string \<Rightarrow> string" where
  "re_sub_spaces (a # b # cs) =
     (if a = CHR '' '' \<and> b = CHR '' '' then re_sub_spaces (b # cs)
      else a # re_sub_spaces (b # cs))"
| "re_sub_spaces cs = cs"

text \<open>\<^verbatim>\<open>s.split(sep)\<close> for a one-character separator: never empty, empty fields kept.\<close>

fun split_on :: "char \<Rightarrow> string \<Rightarrow> string list" where
  "split_on sep [] = [[]]"
| "split_on sep (c # cs) =
     (if c = sep then [] # split_on sep cs
      else (case split_on sep cs of
              w # ws \<Rightarrow> (c # w) # ws
            | [] \<Rightarrow> [[c]]))"

text \<open>\<^verbatim>\<open>s.splitlines()\<close> on ASCII: a line ends at LF, CR, CR LF, VT, FF, FS, GS or RS; the
  line ends are dropped and a final empty line is not produced.\<close>

definition is_linebreak :: "char \<Rightarrow> bool" where
  "is_linebreak c =
     (c \<in> set [CHR 0x0A, CHR 0x0B, CHR 0x0C, CHR 0x0D, CHR 0x1C, CHR 0x1D, CHR 0x1E])"

fun splitlines_from :: "string \<Rightarrow> string \<Rightarrow> string list" where
  "splitlines_from cur [] = (if cur = [] then [] else [rev cur])"
| "splitlines_from cur [c] = (if is_linebreak c then [rev cur] else [rev (c # cur)])"
| "splitlines_from cur (c # d # cs) =
     (if c = CHR 0x0D \<and> d = CHR 0x0A then rev cur # splitlines_from [] cs
      else if is_linebreak c then rev cur # splitlines_from [] (d # cs)
      else splitlines_from (c # cur) (d # cs))"

definition splitlines :: "string \<Rightarrow> string list" where
  "splitlines s = splitlines_from [] s"

text \<open>\<^verbatim>\<open>int(s)\<close> in base 10: surrounding whitespace is dropped, then an optional sign and
  decimal digits, where single underscores may separate digits. \<open>None\<close> is \<open>ValueError\<close>.
  (The interpreter's limit on the number of digits is not modelled.)\<close>

definition is_digit :: "char \<Rightarrow> bool" where
  "is_digit c = (c \<in> set ''0123456789'')"

definition digit_val :: "char \<Rightarrow> nat" where
  "digit_val c = of_char c - 48"

fun py_digits :: "nat \<Rightarrow> string \<Rightarrow> nat option" where
  "py_digits acc [] = None"
| "py_digits acc (c # cs) =
     (if \<not> is_digit c then None
      else (case cs of
              [] \<Rightarrow> Some (10 * acc + digit_val c)
            | d # ds \<Rightarrow>
                if d = CHR ''_'' then py_digits (10 * acc + digit_val c) ds
                else py_digits (10 * acc + digit_val c) cs))"

definition py_int :: "string \<Rightarrow> int option" where
  "py_int s =
     (case strip s of
        [] \<Rightarrow> None
      | c # cs \<Rightarrow>
          if c = CHR ''-'' then map_option (\<lambda>n. - int n) (py_digits 0 cs)
          else if c = CHR ''+'' then map_option int (py_digits 0 cs)
          else map_option int (py_digits 0 (c # cs)))"

text \<open>\<^verbatim>\<open>str(i)\<close> for an integer, as an f-string formats it.\<close>

fun str_nat :: "nat \<Rightarrow> string" where
  "str_nat n =
     (if n < 10 then [''0123456789'' ! n]
      else str_nat (n div 10) @ [''0123456789'' ! (n mod 10)])"

definition str_int :: "int \<Rightarrow> string" where
  "str_int i = (if i < 0 then CHR ''-'' # str_nat (nat (- i)) else str_nat (nat i))"

text \<open>List indexing \<^verbatim>\<open>xs[i]\<close> with a Python integer: a negative index counts from the end;
  \<open>None\<close> is \<open>IndexError\<close>, otherwise the position addressed.\<close>

definition py_index :: "'a list \<Rightarrow> int \<Rightarrow> nat option" where
  "py_index xs i =
     (let n = int (length xs); j = (if i < 0 then n + i else i)
      in if 0 \<le> j \<and> j < n then Some (nat j) else None)"

text \<open>\<^verbatim>\<open>max(xs)\<close> of a non-empty list (the caller handles the empty list): a left-to-right
  scan keeping the first greatest element.\<close>

fun py_max :: "rat list \<Rightarrow> rat" where
  "py_max [] = 0"
| "py_max (x # xs) = foldl (\<lambda>m y. if y > m then y else m) x xs"

subsection \<open>The zone object and its constructor\<close>

record gpu_zone =
  gpu_device_ids :: "int list"
  gpu_temperature :: "rat list"
  temp_retrieved :: "rat list"
  polling :: rat

text \<open>
  \<open>GpuZone.__init__\<close>, lines 51 to 99. The configuration is the section \<^verbatim>\<open>[GPU zone]\<close> as a
  map from option names to strings (\<open>None\<close>: the section is missing, \<open>config[...]\<close> raises
  \<open>KeyError\<close>). The constructor of the base class \<open>FanController\<close> is not part of the file;
  it is the parameter \<open>super_init\<close>, which receives the sensor count and either raises or
  returns the polling interval it stores in \<open>self.polling\<close>. The final log message has no
  effect on the object and is left out.
\<close>

definition config_get :: "(string \<rightharpoonup> string) \<Rightarrow> string \<Rightarrow> string \<Rightarrow> string" where
  "config_get section key fallback = (case section key of None \<Rightarrow> fallback | Some v \<Rightarrow> v)"

text \<open>Lines 52 to 56: the normalised string and its tokens.\<close>

definition parse_gpu_ids :: "string \<Rightarrow> string list" where
  "parse_gpu_ids raw =
     (let gpu_id_list = re_sub_spaces (strip raw)
      in split_on (if CHR '','' \<in> set gpu_id_list then CHR '','' else CHR '' '') gpu_id_list)"

definition in_range_0_101 :: "int \<Rightarrow> bool" where
  "in_range_0_101 gid = (0 \<le> gid \<and> gid < 101)"

definition GpuZone_init ::
  "(nat \<Rightarrow> py_error + rat) \<Rightarrow> (string \<rightharpoonup> string) option \<Rightarrow> py_error + gpu_zone" where
  "GpuZone_init super_init config =
     (case config of
        None \<Rightarrow> Inl KeyError
      | Some section \<Rightarrow>
          let raw = config_get section ''gpu_device_ids'' ''0''
          in (case those (map py_int (parse_gpu_ids raw)) of
                None \<Rightarrow> Inl ValueError
              | Some ids \<Rightarrow>
                  if \<not> list_all in_range_0_101 ids then Inl ValueError
                  else
                    let count = length ids
                    in (case super_init count of
                          Inl err \<Rightarrow> Inl err
                        | Inr p \<Rightarrow>
                            Inr \<lparr>gpu_device_ids = ids,
                                 gpu_temperature = replicate count 0,
                                 temp_retrieved = replicate count 0,
                                 polling = p\<rparr>)))"

subsection \<open>The cached temperature read\<close>

text \<open>
  The world outside the object. \<open>glob_glob\<close> is \<^verbatim>\<open>glob.glob\<close>: the paths matching a
  pattern. \<open>subprocess_run\<close> is \<^verbatim>\<open>subprocess.run(args, check=False, capture_output=True,
  text=True)\<close>: the captured standard output, or the exception raised when the command
  cannot be started. \<open>py_float\<close> is the builtin \<^verbatim>\<open>float\<close> on strings (\<open>None\<close> is \<open>ValueError\<close>);
  it is kept a parameter, so that nothing proved depends on which numerals it accepts.
\<close>

record env =
  glob_glob :: "string \<Rightarrow> string list"
  subprocess_run :: "string list \<Rightarrow> py_error + string"
  py_float :: "string \<Rightarrow> rat option"

datatype io_event =
    GlobCall string
  | RunCall "string list"
  | PrintCall int "rat list"

text \<open>The pattern of line 124 for a device id.\<close>

definition hwmon_pattern :: "int \<Rightarrow> string" where
  "hwmon_pattern gid = ''/sys/class/drm/card'' @ str_int gid @ ''/device/hwmon/*/temp*_input''"

text \<open>The list comprehension of line 136,
  \<^verbatim>\<open>[float(temp.split(":")[1]) / 1000 for temp in temp_list]\<close>: the lines are taken in
  order and the first one that fails raises. A line without a colon has a single field, so
  \<^verbatim>\<open>[1]\<close> raises \<open>IndexError\<close>.\<close>

fun parse_temps :: "(string \<Rightarrow> rat option) \<Rightarrow> string list \<Rightarrow> py_error + rat list" where
  "parse_temps f [] = Inr []"
| "parse_temps f (temp # rest) =
     (case split_on (CHR '':'') temp of
        _ # field # _ \<Rightarrow>
          (case f field of
             None \<Rightarrow> Inl ValueError
           | Some v \<Rightarrow>
               (case parse_temps f rest of
                  Inl err \<Rightarrow> Inl err
                | Inr vs \<Rightarrow> Inr (v / 1000 # vs)))
      | _ \<Rightarrow> Inl IndexError)"

text \<open>Line 140, \<^verbatim>\<open>return self.gpu_temperature[index]\<close>.\<close>

definition return_cached ::
  "gpu_zone \<Rightarrow> int \<Rightarrow> io_event list \<Rightarrow> (py_error + rat) \<times> gpu_zone \<times> io_event list" where
  "return_cached z index evs =
     (case py_index (gpu_temperature z) index of
        None \<Rightarrow> (Inl IndexError, z, evs)
      | Some m \<Rightarrow> (Inr (gpu_temperature z ! m), z, evs))"

text \<open>
  \<open>GpuZone._get_nth_temp\<close>, lines 118 to 140. \<open>current_time\<close> is the value
  \<^verbatim>\<open>time.monotonic()\<close> returned. The result is what the call returns or raises, the object
  after the call and the calls made to the outside world, in order. The handler
  \<^verbatim>\<open>except FileNotFoundError as e: raise e\<close> raises the exception again, so every exception
  leaves the method.
\<close>

definition get_nth_temp ::
  "env \<Rightarrow> rat \<Rightarrow> gpu_zone \<Rightarrow> int \<Rightarrow> (py_error + rat) \<times> gpu_zone \<times> io_event list" where
  "get_nth_temp e current_time z index =
     (case py_index (temp_retrieved z) index of
        None \<Rightarrow> (Inl IndexError, z, [])
      | Some i \<Rightarrow>
          if current_time - temp_retrieved z ! i \<ge> polling z then
            (case py_index (gpu_device_ids z) index of
               None \<Rightarrow> (Inl IndexError, z, [])
             | Some k \<Rightarrow>
                 let gid = gpu_device_ids z ! k;
                     paths = glob_glob e (hwmon_pattern gid)
                 in if paths = [] then (Inl FileNotFoundError, z, [GlobCall (hwmon_pattern gid)])
                    else
                      let args = ''grep'' # ''.'' # paths;
                          evs = [GlobCall (hwmon_pattern gid), RunCall args]
                      in (case subprocess_run e args of
                            Inl err \<Rightarrow> (Inl err, z, evs)
                          | Inr stdout \<Rightarrow>
                              let z1 = z\<lparr>temp_retrieved := (temp_retrieved z)[i := current_time]\<rparr>
                              in (case parse_temps (py_float e) (splitlines stdout) of
                                    Inl err \<Rightarrow> (Inl err, z1, evs)
                                  | Inr temp_list \<Rightarrow>
                                      let evs' = evs @ [PrintCall gid temp_list]
                                      in if temp_list = [] then (Inl ValueError, z1, evs')
                                         else
                                           (case py_index (gpu_temperature z1) index of
                                              None \<Rightarrow> (Inl IndexError, z1, evs')
                                            | Some m \<Rightarrow>
                                                return_cached
                                                  (z1\<lparr>gpu_temperature :=
                                                        (gpu_temperature z1)[m := py_max temp_list]\<rparr>)
                                                  index evs'))))
          else return_cached z index [])"

text \<open>After construction the three lists of the object have the same length.\<close>

definition zone_inv :: "gpu_zone \<Rightarrow> bool" where
  "zone_inv z =
     (length (gpu_temperature z) = length (gpu_device_ids z)
      \<and> length (temp_retrieved z) = length (gpu_device_ids z))"

text \<open>Sample worlds used to run the model: a decimal-integer fragment of \<open>float\<close>, and a
  device with three, one and no temperature inputs. The command \<^verbatim>\<open>grep . f1 f2 ...\<close> prefixes
  every line with the file name and a colon when it is given several files and prints the
  bare line when it is given one.\<close>

definition float_of_decimal :: "string \<Rightarrow> rat option" where
  "float_of_decimal s = map_option of_int (py_int s)"

definition card0_paths :: "string list" where
  "card0_paths =
     [''/sys/class/drm/card0/device/hwmon/hwmon3/temp1_input'',
      ''/sys/class/drm/card0/device/hwmon/hwmon3/temp2_input'',
      ''/sys/class/drm/card0/device/hwmon/hwmon3/temp3_input'']"

definition glob_card0 :: "string list \<Rightarrow> string \<Rightarrow> string list" where
  "glob_card0 paths pat =
     (if pat = ''/sys/class/drm/card0/device/hwmon/*/temp*_input'' then paths else [])"

definition lines_out :: "string list \<Rightarrow> string" where
  "lines_out ls = concat (map (\<lambda>l. l @ [CHR 0x0A]) ls)"

definition lines_three :: "string list" where
  "lines_three =
     [''/sys/class/drm/card0/device/hwmon/hwmon3/temp1_input:45000'',
      ''/sys/class/drm/card0/device/hwmon/hwmon3/temp2_input:52000'',
      ''/sys/class/drm/card0/device/hwmon/hwmon3/temp3_input:38000'']"

definition lines_bad_value :: "string list" where
  "lines_bad_value =
     [''/sys/class/drm/card0/device/hwmon/hwmon3/temp1_input:45000'',
      ''/sys/class/drm/card0/device/hwmon/hwmon3/temp2_input:N/A'',
      ''/sys/class/drm/card0/device/hwmon/hwmon3/temp3_input:38000'']"

definition env_three :: env where
  "env_three =
     \<lparr>glob_glob = glob_card0 card0_paths,
      subprocess_run = (\<lambda>args. Inr (lines_out lines_three)),
      py_float = float_of_decimal\<rparr>"

definition env_bad_value :: env where
  "env_bad_value =
     \<lparr>glob_glob = glob_card0 card0_paths,
      subprocess_run = (\<lambda>args. Inr (lines_out lines_bad_value)),
      py_float = float_of_decimal\<rparr>"

definition env_single :: env where
  "env_single =
     \<lparr>glob_glob = glob_card0 [''/sys/class/drm/card0/device/hwmon/hwmon3/temp1_input''],
      subprocess_run = (\<lambda>args. Inr (lines_out [''60000''])),
      py_float = float_of_decimal\<rparr>"

definition env_none :: env where
  "env_none =
     \<lparr>glob_glob = (\<lambda>pat. []),
      subprocess_run = (\<lambda>args. Inl FileNotFoundError),
      py_float = float_of_decimal\<rparr>"

definition super_ok :: "nat \<Rightarrow> py_error + rat" where
  "super_ok count = Inr 2"

definition config_ids :: "string \<Rightarrow> (string \<rightharpoonup> string) option" where
  "config_ids v = Some [''gpu_device_ids'' \<mapsto> v]"

definition zone0 :: gpu_zone where
  "zone0 = \<lparr>gpu_device_ids = [0], gpu_temperature = [0], temp_retrieved = [0], polling = 2\<rparr>"

definition zone0_polled :: "rat \<Rightarrow> rat \<Rightarrow> gpu_zone" where
  "zone0_polled t v =
     \<lparr>gpu_device_ids = [0], gpu_temperature = [v], temp_retrieved = [t], polling = 2\<rparr>"

definition zone00 :: gpu_zone where
  "zone00 =
     \<lparr>gpu_device_ids = [0, 0], gpu_temperature = [0, 0], temp_retrieved = [0, 0],
      polling = 2\<rparr>"

definition zone01_new :: gpu_zone where
  "zone01_new =
     \<lparr>gpu_device_ids = [0, 1], gpu_temperature = [0, 0], temp_retrieved = [0, 0],
      polling = 2\<rparr>"

definition zone01 :: gpu_zone where
  "zone01 =
     \<lparr>gpu_device_ids = [0, 1], gpu_temperature = [41, 63], temp_retrieved = [10, 10],
      polling = 2\<rparr>"

section \<open>Properties\<close>

subsection \<open>Indexing, maximum and the line parser\<close>

lemma py_index_less: "py_index xs i = Some k \<Longrightarrow> k < length xs"
  by (auto simp: py_index_def Let_def split: if_splits)

lemma py_index_same_length: "length xs = length ys \<Longrightarrow> py_index xs i = py_index ys i"
  by (simp add: py_index_def)


lemma py_index_outside:
  "i \<ge> int (length xs) \<or> i < - int (length xs) \<Longrightarrow> py_index xs i = None"
  by (auto simp: py_index_def Let_def)

lemma py_index_negative:
  "- int (length xs) \<le> i \<Longrightarrow> i < 0 \<Longrightarrow> py_index xs i = py_index xs (int (length xs) + i)"
  by (auto simp: py_index_def Let_def)



lemma split_on_nonempty: "split_on sep s \<noteq> []"
  by (induction s) (auto split: list.splits)

lemma split_on_no_sep: "sep \<notin> set s \<Longrightarrow> split_on sep s = [s]"
  by (induction s) (auto split: list.splits)

lemma parse_temps_result:
  "parse_temps f ls = Inr vs \<Longrightarrow>
     vs = map (\<lambda>l. the (f (split_on (CHR '':'') l ! 1)) / 1000) ls
     \<and> (\<forall>l\<in>set ls. 2 \<le> length (split_on (CHR '':'') l) \<and> f (split_on (CHR '':'') l ! 1) \<noteq> None)"
proof (induction ls arbitrary: vs)
  case Nil
  then show ?case by simp
next
  case (Cons l ls)
  then show ?case
    by (auto split: list.splits option.splits sum.splits)
qed

lemma parse_temps_no_colon:
  "parse_temps f pre = Inr vs \<Longrightarrow> CHR '':'' \<notin> set l \<Longrightarrow>
     parse_temps f (pre @ l # post) = Inl IndexError"
proof (induction pre arbitrary: vs)
  case Nil
  then show ?case by (simp add: split_on_no_sep)
next
  case (Cons p pre)
  then show ?case
    by (auto split: list.splits option.splits sum.splits)
qed

lemma parse_temps_never_no_colon:
  assumes "l \<in> set ls" and "CHR '':'' \<notin> set l"
  shows "parse_temps f ls \<noteq> Inr vs"
proof
  assume "parse_temps f ls = Inr vs"
  from parse_temps_result [OF this] have "\<forall>l\<in>set ls. 2 \<le> length (split_on (CHR '':'') l)"
    by blast
  with assms show False by (auto simp: split_on_no_sep)
qed


lemma return_cached_inv:
  "py_index (gpu_temperature z) index = Some m \<Longrightarrow>
   return_cached z index evs = (Inr (gpu_temperature z ! m), z, evs)"
  by (simp add: return_cached_def)

lemma zone_inv_index:
  assumes "zone_inv z" and "py_index (temp_retrieved z) index = Some i"
  shows "py_index (gpu_device_ids z) index = Some i"
    and "py_index (gpu_temperature z) index = Some i"
    and "i < length (gpu_device_ids z)"
  using assms py_index_same_length [of "temp_retrieved z" "gpu_device_ids z" index]
    py_index_same_length [of "temp_retrieved z" "gpu_temperature z" index]
    py_index_less [of "temp_retrieved z" index i]
  by (simp_all add: zone_inv_def)

lemma cached_read:
  assumes inv: "zone_inv z"
    and idx: "py_index (temp_retrieved z) index = Some i"
    and fresh: "current_time - temp_retrieved z ! i < polling z"
  shows "get_nth_temp e current_time z index = (Inr (gpu_temperature z ! i), z, [])"
  using fresh idx zone_inv_index(2) [OF inv idx]
  by (simp add: get_nth_temp_def return_cached_def)

lemma acquire_read:
  assumes inv: "zone_inv z"
    and idx: "py_index (temp_retrieved z) index = Some i"
    and due: "polling z \<le> current_time - temp_retrieved z ! i"
    and paths: "glob_glob e (hwmon_pattern (gpu_device_ids z ! i)) = paths" "paths \<noteq> []"
    and run: "subprocess_run e (''grep'' # ''.'' # paths) = Inr out"
    and parse: "parse_temps (py_float e) (splitlines out) = Inr temps"
    and some: "temps \<noteq> []"
  shows "get_nth_temp e current_time z index =
           (Inr (py_max temps),
            z\<lparr>temp_retrieved := (temp_retrieved z)[i := current_time],
              gpu_temperature := (gpu_temperature z)[i := py_max temps]\<rparr>,
            [GlobCall (hwmon_pattern (gpu_device_ids z ! i)),
             RunCall (''grep'' # ''.'' # paths),
             PrintCall (gpu_device_ids z ! i) temps])"
proof -
  note ix = zone_inv_index [OF inv idx]
  have len: "i < length (gpu_temperature z)"
    using ix(2) by (rule py_index_less)
  have ix': "py_index ((gpu_temperature z)[i := v]) index = Some i" for v
    using ix(2) py_index_same_length [of "(gpu_temperature z)[i := v]" "gpu_temperature z" index]
    by simp
  show ?thesis
    using idx due ix(1) ix(2) paths run parse some len ix'
    by (simp add: get_nth_temp_def return_cached_def Let_def)
qed

subsection \<open>The read, case by case\<close>

lemma zone_inv_update:
  "zone_inv z \<Longrightarrow>
   zone_inv (z\<lparr>temp_retrieved := (temp_retrieved z)[i := t]\<rparr>)
   \<and> zone_inv (z\<lparr>temp_retrieved := (temp_retrieved z)[i := t],
                  gpu_temperature := (gpu_temperature z)[m := v]\<rparr>)"
  by (simp add: zone_inv_def)

lemma read_ok_state:
  assumes inv: "zone_inv z"
    and ok: "get_nth_temp e t z index = (Inr v, z1, evs)"
  shows "zone_inv z1 \<and> polling z1 = polling z
         \<and> length (temp_retrieved z1) = length (temp_retrieved z)
         \<and> (\<exists>m. py_index (temp_retrieved z1) index = Some m \<and> v = gpu_temperature z1 ! m)"
proof (cases "py_index (temp_retrieved z) index")
  case None
  with ok show ?thesis by (simp add: get_nth_temp_def)
next
  case (Some i)
  note ix = zone_inv_index [OF inv Some]
  have lt: "i < length (gpu_temperature z)"
    using ix(2) by (rule py_index_less)
  have ix': "py_index ((temp_retrieved z)[i := t]) index = Some i"
    using Some py_index_same_length [of "(temp_retrieved z)[i := t]" "temp_retrieved z" index]
    by simp
  have ix'': "py_index ((gpu_temperature z)[i := w]) index = Some i" for w
    using ix(2) py_index_same_length [of "(gpu_temperature z)[i := w]" "gpu_temperature z" index]
    by simp
  show ?thesis
  proof (cases "t - temp_retrieved z ! i < polling z")
    case True
    from cached_read [OF inv Some True, of e] ok inv Some show ?thesis by simp
  next
    case False
    with ok Some ix(1) ix(2) ix'' lt have
      "z1 = z\<lparr>temp_retrieved := (temp_retrieved z)[i := t],
              gpu_temperature := (gpu_temperature z)[i := v]\<rparr>"
      by (auto simp: get_nth_temp_def return_cached_def Let_def
          split: if_splits sum.splits)
    with inv ix' lt show ?thesis
      using zone_inv_update [OF inv, of i t i v] by simp
  qed
qed

lemma no_sensor_read:
  assumes inv: "zone_inv z"
    and idx: "py_index (temp_retrieved z) index = Some i"
    and due: "polling z \<le> current_time - temp_retrieved z ! i"
    and none: "glob_glob e (hwmon_pattern (gpu_device_ids z ! i)) = []"
  shows "get_nth_temp e current_time z index =
           (Inl FileNotFoundError, z, [GlobCall (hwmon_pattern (gpu_device_ids z ! i))])"
  using idx due none zone_inv_index(1) [OF inv idx]
  by (simp add: get_nth_temp_def)

lemma index_error_read:
  assumes "int (length (temp_retrieved z)) \<le> index \<or> index < - int (length (temp_retrieved z))"
  shows "get_nth_temp e current_time z index = (Inl IndexError, z, [])"
  using py_index_outside [OF assms] by (simp add: get_nth_temp_def)

lemma negative_index_read:
  assumes inv: "zone_inv z"
    and lo: "- int (length (gpu_device_ids z)) \<le> index" and neg: "index < 0"
  shows "get_nth_temp e current_time z index =
         get_nth_temp e current_time z (int (length (gpu_device_ids z)) + index)"
proof -
  let ?n = "int (length (gpu_device_ids z))"
  have same: "py_index xs index = py_index xs (?n + index)"
    if "length xs = length (gpu_device_ids z)" for xs :: "rat list"
    using that py_index_negative [of xs index] lo neg by simp
  have a: "py_index (temp_retrieved z) index = py_index (temp_retrieved z) (?n + index)"
    using inv by (intro same) (simp add: zone_inv_def)
  have b: "py_index (gpu_temperature z) index = py_index (gpu_temperature z) (?n + index)"
    using inv by (intro same) (simp add: zone_inv_def)
  have c: "py_index (gpu_device_ids z) index = py_index (gpu_device_ids z) (?n + index)"
    using py_index_negative [of "gpu_device_ids z" index] lo neg by simp
  have d: "py_index ((gpu_temperature z)[m := w]) index
           = py_index ((gpu_temperature z)[m := w]) (?n + index)" for m w
    using inv by (intro same) (simp add: zone_inv_def)
  show ?thesis
    by (simp add: get_nth_temp_def return_cached_def a b c d Let_def
        split: option.splits sum.splits)
qed

lemma parse_failure_read:
  assumes inv: "zone_inv z"
    and idx: "py_index (temp_retrieved z) index = Some i"
    and due: "polling z \<le> current_time - temp_retrieved z ! i"
    and paths: "glob_glob e (hwmon_pattern (gpu_device_ids z ! i)) = paths" "paths \<noteq> []"
    and run: "subprocess_run e (''grep'' # ''.'' # paths) = Inr out"
    and parse: "parse_temps (py_float e) (splitlines out) = Inl err"
  shows "get_nth_temp e current_time z index =
           (Inl err,
            z\<lparr>temp_retrieved := (temp_retrieved z)[i := current_time]\<rparr>,
            [GlobCall (hwmon_pattern (gpu_device_ids z ! i)),
             RunCall (''grep'' # ''.'' # paths)])"
  using idx due paths run parse zone_inv_index(1) [OF inv idx]
  by (simp add: get_nth_temp_def Let_def)

subsection \<open>The constructor\<close>

lemma those_map_Some: "those xs = Some ys \<Longrightarrow> xs = map Some ys"
  by (induction xs arbitrary: ys) (auto split: option.splits)

lemma those_None: "None \<in> set xs \<Longrightarrow> those xs = None"
  by (induction xs) (auto split: option.splits)

lemma init_result:
  assumes ok: "GpuZone_init super_init (Some section) = Inr z"
  shows "\<exists>ids p.
           map py_int (parse_gpu_ids (config_get section ''gpu_device_ids'' ''0'')) = map Some ids
           \<and> list_all in_range_0_101 ids
           \<and> super_init (length ids) = Inr p
           \<and> z = \<lparr>gpu_device_ids = ids,
                   gpu_temperature = replicate (length ids) 0,
                   temp_retrieved = replicate (length ids) 0,
                   polling = p\<rparr>"
proof (cases "those (map py_int (parse_gpu_ids (config_get section ''gpu_device_ids'' ''0'')))")
  case None
  with ok show ?thesis by (simp add: GpuZone_init_def)
next
  case (Some ids)
  note toks = those_map_Some [OF Some]
  show ?thesis
  proof (cases "list_all in_range_0_101 ids")
    case False
    with ok Some show ?thesis by (simp add: GpuZone_init_def)
  next
    case True
    show ?thesis
    proof (cases "super_init (length ids)")
      case (Inl err)
      with ok Some True show ?thesis by (simp add: GpuZone_init_def)
    next
      case (Inr p)
      with ok Some True have "z = \<lparr>gpu_device_ids = ids,
                   gpu_temperature = replicate (length ids) 0,
                   temp_retrieved = replicate (length ids) 0,
                   polling = p\<rparr>"
        by (auto simp: GpuZone_init_def Let_def)
      with toks True Inr show ?thesis by blast
    qed
  qed
qed

lemma init_no_section: "GpuZone_init super_init None = Inl KeyError"
  by (simp add: GpuZone_init_def)


lemma init_bad_token:
  assumes tok: "t \<in> set (parse_gpu_ids (config_get section ''gpu_device_ids'' ''0''))"
    and bad: "py_int t = None \<or> (\<exists>n. py_int t = Some n \<and> (n < 0 \<or> 100 < n))"
  shows "GpuZone_init super_init (Some section) = Inl ValueError"
proof (cases "those (map py_int (parse_gpu_ids (config_get section ''gpu_device_ids'' ''0'')))")
  case None
  then show ?thesis by (simp add: GpuZone_init_def)
next
  case (Some ids)
  from those_map_Some [OF Some] tok have "py_int t \<in> Some ` set ids"
    by (metis (no_types) image_eqI set_map)
  with bad obtain n where "n \<in> set ids" and "n < 0 \<or> 100 < n"
    by auto
  then have "\<not> in_range_0_101 n"
    by (auto simp: in_range_0_101_def)
  with \<open>n \<in> set ids\<close> have "\<not> list_all in_range_0_101 ids"
    unfolding list_all_iff by blast
  with Some show ?thesis by (simp add: GpuZone_init_def)
qed


subsection \<open>The sample worlds, evaluated\<close>

lemma sample_zone_inv: "zone_inv zone0" "zone_inv zone01" "zone_inv (zone0_polled t v)"
  by (simp_all add: zone_inv_def zone0_def zone01_def zone0_polled_def)

lemma sample_index:
  "py_index (temp_retrieved zone0) 0 = Some 0"
  "py_index (temp_retrieved zone01) 0 = Some 0"
  "py_index (temp_retrieved zone01) (- 1) = Some 1"
  "py_index (temp_retrieved (zone0_polled t v)) 0 = Some 0"
  by (simp_all add: py_index_def zone0_def zone01_def zone0_polled_def)

lemma sample_pattern: "hwmon_pattern 0 = ''/sys/class/drm/card0/device/hwmon/*/temp*_input''"
  by (simp add: hwmon_pattern_def str_int_def)

lemma sample_glob:
  "glob_glob env_three (hwmon_pattern (gpu_device_ids zone0 ! 0)) = card0_paths"
  "glob_glob env_bad_value (hwmon_pattern (gpu_device_ids zone0 ! 0)) = card0_paths"
  "glob_glob env_single (hwmon_pattern (gpu_device_ids zone0 ! 0))
     = [''/sys/class/drm/card0/device/hwmon/hwmon3/temp1_input'']"
  "glob_glob env_none (hwmon_pattern (gpu_device_ids zone0 ! 0)) = []"
  by (simp_all add: zone0_def sample_pattern env_three_def env_bad_value_def env_single_def
      env_none_def glob_card0_def)

lemma sample_run:
  "subprocess_run env_three args = Inr (lines_out lines_three)"
  "subprocess_run env_bad_value args = Inr (lines_out lines_bad_value)"
  "subprocess_run env_single args = Inr (lines_out [''60000''])"
  by (simp_all add: env_three_def env_bad_value_def env_single_def)

lemma sample_float:
  "float_of_decimal ''45000'' = Some 45000"
  "float_of_decimal ''52000'' = Some 52000"
  "float_of_decimal ''38000'' = Some 38000"
  "float_of_decimal ''60000'' = Some 60000"
  "float_of_decimal ''N/A'' = None"
  by (simp_all add: float_of_decimal_def py_int_def strip_def is_space_def is_digit_def
      digit_val_def)

lemma sample_splitlines:
  "splitlines (lines_out lines_three) = lines_three"
  "splitlines (lines_out lines_bad_value) = lines_bad_value"
  "splitlines (lines_out [''60000'']) = [''60000'']"
  by (simp_all add: splitlines_def lines_out_def lines_three_def lines_bad_value_def
      is_linebreak_def)

lemma sample_parse:
  "parse_temps float_of_decimal lines_three = Inr [45, 52, 38]"
  "parse_temps float_of_decimal lines_bad_value = Inl ValueError"
  by (simp_all add: lines_three_def lines_bad_value_def sample_float)

lemma sample_py_float:
  "py_float env_three = float_of_decimal"
  "py_float env_bad_value = float_of_decimal"
  "py_float env_single = float_of_decimal"
  by (simp_all add: env_three_def env_bad_value_def env_single_def)

lemma sample_tokens:
  "parse_gpu_ids ''0,0'' = [''0'', ''0'']"
  "parse_gpu_ids ''0,101'' = [''0'', ''101'']"
  "parse_gpu_ids ''1  x'' = [''1'', ''x'']"
  "parse_gpu_ids ''0, 1'' = [''0'', '' 1'']"
  by (simp_all add: parse_gpu_ids_def strip_def is_space_def)

lemma sample_int:
  "py_int ''0'' = Some 0"
  "py_int '' 1'' = Some 1"
  "py_int ''101'' = Some 101"
  "py_int ''x'' = None"
  by (simp_all add: py_int_def strip_def is_space_def is_digit_def digit_val_def)

lemma sample_section:
  "config_ids v = Some [''gpu_device_ids'' \<mapsto> v]"
  "config_get [''gpu_device_ids'' \<mapsto> v] ''gpu_device_ids'' ''0'' = v"
  by (simp_all add: config_ids_def config_get_def)

lemma sample_init:
  "GpuZone_init super_ok (config_ids ''0,0'') =
     Inr \<lparr>gpu_device_ids = [0, 0], gpu_temperature = [0, 0], temp_retrieved = [0, 0],
          polling = 2\<rparr>"
  "GpuZone_init super_ok (config_ids ''0, 1'') =
     Inr \<lparr>gpu_device_ids = [0, 1], gpu_temperature = [0, 0], temp_retrieved = [0, 0],
          polling = 2\<rparr>"
  "GpuZone_init super_ok (config_ids ''0'') = Inr zone0"
  by (simp_all add: GpuZone_init_def sample_section parse_gpu_ids_def strip_def is_space_def
      py_int_def is_digit_def digit_val_def in_range_0_101_def super_ok_def zone0_def
      numeral_2_eq_2)

section \<open>The claims\<close>



text \<open>
  C2. At a valid index, a read made less than the polling interval after the cached
  timestamp returns the cached value, leaves the object as it was and makes no call to the
  outside world. Consequently, after any read that returned a value, a second read of the
  same index made less than the polling interval after the timestamp then in the cache
  returns the same value, changes nothing and makes no call.
\<close>

theorem get_nth_temp_within_polling_interval:
  assumes inv: "zone_inv z"
    and idx: "py_index (temp_retrieved z) index = Some i"
  shows "(current_time - temp_retrieved z ! i < polling z \<longrightarrow>
            get_nth_temp e current_time z index = (Inr (gpu_temperature z ! i), z, []))
         \<and> (\<forall>v z1 evs e2 t2.
               get_nth_temp e current_time z index = (Inr v, z1, evs)
               \<and> t2 - temp_retrieved z1 ! i < polling z1 \<longrightarrow>
               get_nth_temp e2 t2 z1 index = (Inr v, z1, []))"
proof (intro conjI allI impI)
  assume "current_time - temp_retrieved z ! i < polling z"
  then show "get_nth_temp e current_time z index = (Inr (gpu_temperature z ! i), z, [])"
    by (rule cached_read [OF inv idx])
next
  fix v z1 evs e2 t2
  assume a: "get_nth_temp e current_time z index = (Inr v, z1, evs)
             \<and> t2 - temp_retrieved z1 ! i < polling z1"
  from read_ok_state [OF inv conjunct1 [OF a]] obtain m where
    inv1: "zone_inv z1" and len: "length (temp_retrieved z1) = length (temp_retrieved z)"
    and m: "py_index (temp_retrieved z1) index = Some m" and v: "v = gpu_temperature z1 ! m"
    by blast
  have "py_index (temp_retrieved z1) index = Some i"
    using idx py_index_same_length [OF len, of index] by simp
  with m have mi: "m = i" by simp
  from cached_read [OF inv1 m, of t2 e2] a v mi
  show "get_nth_temp e2 t2 z1 index = (Inr v, z1, [])" by simp
qed

theorem get_nth_temp_within_polling_interval_witness:
  "get_nth_temp env_none 11 zone01 0 = (Inr 41, zone01, [])
   \<and> get_nth_temp env_none 11 (zone0_polled 10 52) 0 = (Inr 52, zone0_polled 10 52, [])"
proof -
  have fresh: "11 - temp_retrieved zone01 ! 0 < polling zone01"
    by (simp add: zone01_def)
  have first: "get_nth_temp env_three 10 zone0 0 =
     (Inr 52, zone0_polled 10 52,
      [GlobCall (hwmon_pattern (gpu_device_ids zone0 ! 0)),
       RunCall (''grep'' # ''.'' # card0_paths),
       PrintCall (gpu_device_ids zone0 ! 0) [45, 52, 38]])"
    using acquire_read [OF sample_zone_inv(1) sample_index(1) _ sample_glob(1) _ sample_run(1),
        of 10 "[45, 52, 38]"]
    by (simp add: sample_py_float sample_splitlines sample_parse card0_paths_def zone0_def
        zone0_polled_def)
  have second: "11 - temp_retrieved (zone0_polled 10 52) ! 0 < polling (zone0_polled 10 52)"
    by (simp add: zone0_polled_def)
  from get_nth_temp_within_polling_interval [OF sample_zone_inv(2) sample_index(2), of 11 env_none]
    fresh
  have one: "get_nth_temp env_none 11 zone01 0 = (Inr 41, zone01, [])"
    by (simp add: zone01_def)
  from get_nth_temp_within_polling_interval [OF sample_zone_inv(1) sample_index(1), of 10 env_three]
    first second
  have two: "get_nth_temp env_none 11 (zone0_polled 10 52) 0 = (Inr 52, zone0_polled 10 52, [])"
    by blast
  from one two show ?thesis ..
qed

text \<open>
  C4. At a valid index whose polling interval has elapsed, when no path matches the
  pattern of the device, the read raises \<open>FileNotFoundError\<close> to the caller; no value is
  returned, nothing but the pattern lookup has been called, and the object, with the cache
  entry of the index, is unchanged.
\<close>

theorem get_nth_temp_sensor_not_found:
  assumes inv: "zone_inv z"
    and idx: "py_index (temp_retrieved z) index = Some i"
    and due: "polling z \<le> current_time - temp_retrieved z ! i"
    and none: "glob_glob e (hwmon_pattern (gpu_device_ids z ! i)) = []"
  shows "get_nth_temp e current_time z index =
           (Inl FileNotFoundError, z, [GlobCall (hwmon_pattern (gpu_device_ids z ! i))])"
  using inv idx due none by (rule no_sensor_read)

theorem get_nth_temp_sensor_not_found_witness:
  "get_nth_temp env_none 10 zone0 0 =
     (Inl FileNotFoundError, zone0,
      [GlobCall ''/sys/class/drm/card0/device/hwmon/*/temp*_input''])"
proof -
  have due: "polling zone0 \<le> 10 - temp_retrieved zone0 ! 0"
    by (simp add: zone0_def)
  from get_nth_temp_sensor_not_found [OF sample_zone_inv(1) sample_index(1) due sample_glob(4)]
  show ?thesis by (simp add: zone0_def sample_pattern)
qed

text \<open>
  C3. A read whose output has a line with an unparsable value raises \<open>ValueError\<close>, but the
  cache entry is not left as it was: line 134 has already stored the current time as the
  time of the last poll, while the cached value stays. Run on a device with a source that
  reports \<^verbatim>\<open>N/A\<close>: the read at time 10 raises and leaves the timestamp 10 with the value 0,
  and the read at time 11 returns that 0 without any call.
\<close>

theorem parse_failure_keeps_new_timestamp:
  "get_nth_temp env_bad_value 10 zone0 0 =
     (Inl ValueError, zone0_polled 10 0,
      [GlobCall ''/sys/class/drm/card0/device/hwmon/*/temp*_input'',
       RunCall (''grep'' # ''.'' # card0_paths)])
   \<and> temp_retrieved (zone0_polled 10 0) \<noteq> temp_retrieved zone0
   \<and> get_nth_temp env_bad_value 11 (zone0_polled 10 0) 0 = (Inr 0, zone0_polled 10 0, [])"
proof -
  have due: "polling zone0 \<le> 10 - temp_retrieved zone0 ! 0"
    by (simp add: zone0_def)
  have paths: "card0_paths \<noteq> []"
    by (simp add: card0_paths_def)
  have parse: "parse_temps (py_float env_bad_value) (splitlines (lines_out lines_bad_value))
                 = Inl ValueError"
    by (simp add: sample_py_float sample_splitlines sample_parse)
  from parse_failure_read
         [OF sample_zone_inv(1) sample_index(1) due sample_glob(2) paths sample_run(2) parse]
  have first: "get_nth_temp env_bad_value 10 zone0 0 =
     (Inl ValueError, zone0_polled 10 0,
      [GlobCall ''/sys/class/drm/card0/device/hwmon/*/temp*_input'',
       RunCall (''grep'' # ''.'' # card0_paths)])"
    by (simp add: zone0_def zone0_polled_def sample_pattern)
  have fresh: "11 - temp_retrieved (zone0_polled 10 0) ! 0 < polling (zone0_polled 10 0)"
    by (simp add: zone0_polled_def)
  from cached_read [OF sample_zone_inv(3) sample_index(4) fresh, of env_bad_value]
  have second: "get_nth_temp env_bad_value 11 (zone0_polled 10 0) 0 = (Inr 0, zone0_polled 10 0, [])"
    by (simp add: zone0_polled_def)
  have "temp_retrieved (zone0_polled 10 0) \<noteq> temp_retrieved zone0"
    by (simp add: zone0_def zone0_polled_def)
  with first second show ?thesis by simp
qed

text \<open>
  C6, as stated, fails: the index \<open>-1\<close> is outside \<open>[0, N)\<close> for the zone with two devices,
  yet the read returns the cached value of the last device.
\<close>

theorem negative_index_counterexample:
  "\<not> (0 \<le> (- 1 :: int) \<and> (- 1 :: int) < int (length (gpu_device_ids zone01)))
   \<and> get_nth_temp env_none 11 zone01 (- 1) = (Inr (gpu_temperature zone01 ! 1), zone01, [])"
proof -
  have fresh: "11 - temp_retrieved zone01 ! 1 < polling zone01"
    by (simp add: zone01_def)
  from cached_read [OF sample_zone_inv(2) sample_index(3) fresh, of env_none]
  show ?thesis by simp
qed

text \<open>
  C6, amended. With \<open>N\<close> configured devices, a read at an index \<open>\<ge> N\<close> or \<open>< -N\<close> raises
  \<open>IndexError\<close> at once: the object is unchanged and nothing outside is called. An index in
  \<open>[-N, -1]\<close> is not rejected: list indexing counts from the end, and the read behaves as
  the read at \<open>N + index\<close>.
\<close>

theorem get_nth_temp_index_out_of_range:
  assumes inv: "zone_inv z"
  shows "(int (length (gpu_device_ids z)) \<le> index \<or> index < - int (length (gpu_device_ids z))
            \<longrightarrow> get_nth_temp e current_time z index = (Inl IndexError, z, []))
         \<and> (- int (length (gpu_device_ids z)) \<le> index \<and> index < 0
            \<longrightarrow> get_nth_temp e current_time z index
                = get_nth_temp e current_time z (int (length (gpu_device_ids z)) + index))"
proof (intro conjI impI)
  assume "int (length (gpu_device_ids z)) \<le> index \<or> index < - int (length (gpu_device_ids z))"
  with inv have "int (length (temp_retrieved z)) \<le> index
                 \<or> index < - int (length (temp_retrieved z))"
    by (simp add: zone_inv_def)
  then show "get_nth_temp e current_time z index = (Inl IndexError, z, [])"
    by (rule index_error_read)
next
  assume "- int (length (gpu_device_ids z)) \<le> index \<and> index < 0"
  then show "get_nth_temp e current_time z index
             = get_nth_temp e current_time z (int (length (gpu_device_ids z)) + index)"
    using negative_index_read [OF inv] by blast
qed

theorem get_nth_temp_index_out_of_range_witness:
  "get_nth_temp env_none 11 zone01 2 = (Inl IndexError, zone01, [])
   \<and> get_nth_temp env_none 11 zone01 (- 3) = (Inl IndexError, zone01, [])
   \<and> get_nth_temp env_none 11 zone01 (- 1) = get_nth_temp env_none 11 zone01 1"
proof -
  have n: "int (length (gpu_device_ids zone01)) = 2"
    by (simp add: zone01_def)
  from get_nth_temp_index_out_of_range [OF sample_zone_inv(2), of 2 env_none 11] n
  have a: "get_nth_temp env_none 11 zone01 2 = (Inl IndexError, zone01, [])"
    by simp
  from get_nth_temp_index_out_of_range [OF sample_zone_inv(2), of "- 3" env_none 11] n
  have b: "get_nth_temp env_none 11 zone01 (- 3) = (Inl IndexError, zone01, [])"
    by simp
  from get_nth_temp_index_out_of_range [OF sample_zone_inv(2), of "- 1" env_none 11] n
  have c: "get_nth_temp env_none 11 zone01 (- 1) = get_nth_temp env_none 11 zone01 1"
    by simp
  from a b c show ?thesis by simp
qed

text \<open>
  C5. The constructor strips the configured string, collapses runs of spaces, and splits
  at commas when the string has a comma and at spaces otherwise. When any token does not
  parse as an integer, or parses to an integer outside \<open>[0, 100]\<close>, the constructor raises
  \<open>ValueError\<close>, whatever the base class would do. When it succeeds, every id is the parsed
  value of its token: none is replaced by a default.
\<close>

theorem GpuZone_init_rejects_bad_ids:
  assumes raw: "raw = config_get section ''gpu_device_ids'' ''0''"
    and normalised: "normalised = re_sub_spaces (strip raw)"
  shows "parse_gpu_ids raw
           = split_on (if CHR '','' \<in> set normalised then CHR '','' else CHR '' '') normalised
         \<and> ((\<exists>t\<in>set (parse_gpu_ids raw).
                py_int t = None \<or> (\<exists>n. py_int t = Some n \<and> (n < 0 \<or> 100 < n)))
              \<longrightarrow> GpuZone_init super_init (Some section) = Inl ValueError)
         \<and> (\<forall>z. GpuZone_init super_init (Some section) = Inr z
              \<longrightarrow> map py_int (parse_gpu_ids raw) = map Some (gpu_device_ids z))"
proof (intro conjI impI allI)
  show "parse_gpu_ids raw
          = split_on (if CHR '','' \<in> set normalised then CHR '','' else CHR '' '') normalised"
    by (simp add: parse_gpu_ids_def normalised Let_def)
next
  assume "\<exists>t\<in>set (parse_gpu_ids raw).
            py_int t = None \<or> (\<exists>n. py_int t = Some n \<and> (n < 0 \<or> 100 < n))"
  then obtain t where "t \<in> set (parse_gpu_ids (config_get section ''gpu_device_ids'' ''0''))"
    and "py_int t = None \<or> (\<exists>n. py_int t = Some n \<and> (n < 0 \<or> 100 < n))"
    unfolding raw by blast
  then show "GpuZone_init super_init (Some section) = Inl ValueError"
    by (rule init_bad_token)
next
  fix z
  assume "GpuZone_init super_init (Some section) = Inr z"
  from init_result [OF this] show "map py_int (parse_gpu_ids raw) = map Some (gpu_device_ids z)"
    unfolding raw by auto
qed

theorem GpuZone_init_rejects_bad_ids_witness:
  "GpuZone_init super_ok (config_ids ''0,101'') = Inl ValueError
   \<and> GpuZone_init super_ok (config_ids ''1  x'') = Inl ValueError
   \<and> map py_int (parse_gpu_ids ''0, 1'') = map Some [0, 1]"
proof -
  have bad1: "\<exists>t\<in>set (parse_gpu_ids ''0,101'').
                py_int t = None \<or> (\<exists>n. py_int t = Some n \<and> (n < 0 \<or> 100 < n))"
    by (simp add: sample_tokens sample_int)
  have bad2: "\<exists>t\<in>set (parse_gpu_ids ''1  x'').
                py_int t = None \<or> (\<exists>n. py_int t = Some n \<and> (n < 0 \<or> 100 < n))"
    by (simp add: sample_tokens sample_int)
  from GpuZone_init_rejects_bad_ids
         [OF sample_section(2) [symmetric] refl, of "''0,101''" super_ok] bad1
  have a: "GpuZone_init super_ok (config_ids ''0,101'') = Inl ValueError"
    by (simp add: sample_section(1))
  from GpuZone_init_rejects_bad_ids
         [OF sample_section(2) [symmetric] refl, of "''1  x''" super_ok] bad2
  have b: "GpuZone_init super_ok (config_ids ''1  x'') = Inl ValueError"
    by (simp add: sample_section(1))
  have ok: "GpuZone_init super_ok (Some [''gpu_device_ids'' \<mapsto> ''0, 1'']) =
     Inr \<lparr>gpu_device_ids = [0, 1], gpu_temperature = [0, 0], temp_retrieved = [0, 0],
          polling = 2\<rparr>"
    using sample_init(2) by (simp only: sample_section(1))
  from GpuZone_init_rejects_bad_ids
         [OF sample_section(2) [symmetric] refl, of "''0, 1''" super_ok]
  have "\<forall>z. GpuZone_init super_ok (Some [''gpu_device_ids'' \<mapsto> ''0, 1'']) = Inr z
          \<longrightarrow> map py_int (parse_gpu_ids ''0, 1'') = map Some (gpu_device_ids z)"
    by (rule conjunct2 [OF conjunct2])
  from this [rule_format, OF ok]
  have c: "map py_int (parse_gpu_ids ''0, 1'') = map Some [0, 1]"
    by simp
  from a b c show ?thesis by simp
qed

text \<open>
  C7, as stated, fails: the configuration \<^verbatim>\<open>gpu_device_ids = 0,0\<close> is accepted and the list
  of ids holds the id 0 twice.
\<close>

theorem duplicate_ids_counterexample:
  "GpuZone_init super_ok (config_ids ''0,0'') =
     Inr \<lparr>gpu_device_ids = [0, 0], gpu_temperature = [0, 0], temp_retrieved = [0, 0],
          polling = 2\<rparr>
   \<and> \<not> distinct [0 :: int, 0]"
  using sample_init(1) by simp

text \<open>
  C7, amended. After successful construction every id of \<open>gpu_device_ids\<close> is in
  \<open>[0, 100]\<close> and the list has one id for each token of the configured string, in the
  order of the tokens; an id configured twice is kept twice.
\<close>

theorem GpuZone_init_ids_in_range:
  assumes ok: "GpuZone_init super_init (Some section) = Inr z"
  shows "(\<forall>gid\<in>set (gpu_device_ids z). 0 \<le> gid \<and> gid \<le> 100)
         \<and> length (gpu_device_ids z)
             = length (parse_gpu_ids (config_get section ''gpu_device_ids'' ''0''))
         \<and> (\<forall>k<length (gpu_device_ids z).
               py_int (parse_gpu_ids (config_get section ''gpu_device_ids'' ''0'') ! k)
                 = Some (gpu_device_ids z ! k))"
proof -
  from init_result [OF ok] obtain ids p where
    toks: "map py_int (parse_gpu_ids (config_get section ''gpu_device_ids'' ''0'')) = map Some ids"
    and rng: "list_all in_range_0_101 ids"
    and z: "gpu_device_ids z = ids"
    by auto
  from rng have "\<forall>gid\<in>set ids. 0 \<le> gid \<and> gid \<le> 100"
    by (auto simp: list_all_iff in_range_0_101_def)
  moreover have len:
    "length ids = length (parse_gpu_ids (config_get section ''gpu_device_ids'' ''0''))"
    using arg_cong [OF toks, of length] by simp
  moreover have "py_int (parse_gpu_ids (config_get section ''gpu_device_ids'' ''0'') ! k)
                   = Some (ids ! k)" if "k < length ids" for k
    using that len arg_cong [OF toks, of "\<lambda>xs. xs ! k"] by simp
  ultimately show ?thesis using z by simp
qed

theorem GpuZone_init_ids_in_range_witness:
  "gpu_device_ids zone00 = [0, 0]
   \<and> 0 \<le> gpu_device_ids zone00 ! 1 \<and> gpu_device_ids zone00 ! 1 \<le> 100
   \<and> length (gpu_device_ids zone00) = length (parse_gpu_ids ''0,0'')
   \<and> py_int (parse_gpu_ids ''0,0'' ! 1) = Some (gpu_device_ids zone00 ! 1)"
proof -
  have ok: "GpuZone_init super_ok (Some [''gpu_device_ids'' \<mapsto> ''0,0'']) = Inr zone00"
    using sample_init(1) by (simp only: sample_section(1) zone00_def)
  have ids: "gpu_device_ids zone00 = [0, 0]"
    by (simp add: zone00_def)
  from GpuZone_init_ids_in_range [OF ok] ids show ?thesis
    by (simp add: sample_section(2))
qed

text \<open>
  C8. For every configuration the constructor accepts, \<open>temp_retrieved\<close> and
  \<open>gpu_temperature\<close> have the length of \<open>gpu_device_ids\<close>, and every entry of both is 0: the
  timestamp and the value of a sensor never polled.
\<close>

theorem GpuZone_init_cache_arrays:
  assumes ok: "GpuZone_init super_init config = Inr z"
  shows "length (temp_retrieved z) = length (gpu_device_ids z)
         \<and> length (gpu_temperature z) = length (gpu_device_ids z)
         \<and> (\<forall>k<length (gpu_device_ids z). temp_retrieved z ! k = 0 \<and> gpu_temperature z ! k = 0)"
proof (cases config)
  case None
  with ok show ?thesis by (simp add: init_no_section)
next
  case (Some sect)
  with ok have "GpuZone_init super_init (Some sect) = Inr z" by simp
  from init_result [OF this] show ?thesis by auto
qed

theorem GpuZone_init_cache_arrays_witness:
  "length (temp_retrieved zone01_new) = length (gpu_device_ids zone01_new)
   \<and> length (gpu_temperature zone01_new) = length (gpu_device_ids zone01_new)
   \<and> temp_retrieved zone01_new ! 1 = 0 \<and> gpu_temperature zone01_new ! 1 = 0"
proof -
  have ok: "GpuZone_init super_ok (config_ids ''0, 1'') = Inr zone01_new"
    using sample_init(2) by (simp only: zone01_new_def)
  have n: "length (gpu_device_ids zone01_new) = 2"
    by (simp add: zone01_new_def)
  from GpuZone_init_cache_arrays [OF ok] n show ?thesis
    by simp
qed

text \<open>
  C9. The parser takes the text after the first colon of each output line. When the
  interval has elapsed and the command has run, an output line without a colon makes the
  read fail whatever \<open>float\<close> accepts, also when the whole line is a number: the read never
  returns a value, and when the lines before it parse, the error is \<open>IndexError\<close>, raised
  after the timestamp of the entry has been set. A single bare number, the output for a
  device with one source file, is such a line.
\<close>

theorem get_nth_temp_line_without_colon:
  assumes inv: "zone_inv z"
    and idx: "py_index (temp_retrieved z) index = Some i"
    and due: "polling z \<le> current_time - temp_retrieved z ! i"
    and paths: "glob_glob e (hwmon_pattern (gpu_device_ids z ! i)) = paths" "paths \<noteq> []"
    and run: "subprocess_run e (''grep'' # ''.'' # paths) = Inr out"
    and lines: "splitlines out = pre @ line # post"
    and bare: "CHR '':'' \<notin> set line"
  shows "(\<forall>v. fst (get_nth_temp e current_time z index) \<noteq> Inr v)
         \<and> (\<forall>vs. parse_temps (py_float e) pre = Inr vs \<longrightarrow>
               get_nth_temp e current_time z index =
                 (Inl IndexError,
                  z\<lparr>temp_retrieved := (temp_retrieved z)[i := current_time]\<rparr>,
                  [GlobCall (hwmon_pattern (gpu_device_ids z ! i)),
                   RunCall (''grep'' # ''.'' # paths)]))"
proof (intro conjI allI impI)
  fix v
  have "line \<in> set (splitlines out)"
    using lines by simp
  from parse_temps_never_no_colon [OF this bare]
  obtain err where "parse_temps (py_float e) (splitlines out) = Inl err"
    by (cases "parse_temps (py_float e) (splitlines out)") auto
  from parse_failure_read [OF inv idx due paths run this]
  show "fst (get_nth_temp e current_time z index) \<noteq> Inr v"
    by simp
next
  fix vs
  assume "parse_temps (py_float e) pre = Inr vs"
  from parse_temps_no_colon [OF this bare, of post] lines
  have "parse_temps (py_float e) (splitlines out) = Inl IndexError"
    by simp
  from parse_failure_read [OF inv idx due paths run this]
  show "get_nth_temp e current_time z index =
          (Inl IndexError,
           z\<lparr>temp_retrieved := (temp_retrieved z)[i := current_time]\<rparr>,
           [GlobCall (hwmon_pattern (gpu_device_ids z ! i)),
            RunCall (''grep'' # ''.'' # paths)])" .
qed

theorem get_nth_temp_line_without_colon_witness:
  "py_float env_single ''60000'' = Some 60000
   \<and> get_nth_temp env_single 10 zone0 0 =
       (Inl IndexError, zone0_polled 10 0,
        [GlobCall ''/sys/class/drm/card0/device/hwmon/*/temp*_input'',
         RunCall [''grep'', ''.'', ''/sys/class/drm/card0/device/hwmon/hwmon3/temp1_input'']])"
proof -
  have due: "polling zone0 \<le> 10 - temp_retrieved zone0 ! 0"
    by (simp add: zone0_def)
  have paths: "[''/sys/class/drm/card0/device/hwmon/hwmon3/temp1_input''] \<noteq> []"
    by simp
  have lines: "splitlines (lines_out [''60000'']) = [] @ ''60000'' # []"
    by (simp add: sample_splitlines)
  have bare: "CHR '':'' \<notin> set ''60000''"
    by simp
  have pre: "parse_temps (py_float env_single) [] = Inr []"
    by simp
  from get_nth_temp_line_without_colon
         [OF sample_zone_inv(1) sample_index(1) due sample_glob(3) paths sample_run(3) lines bare]
       pre
  have "get_nth_temp env_single 10 zone0 0 =
       (Inl IndexError,
        zone0\<lparr>temp_retrieved := (temp_retrieved zone0)[0 := 10]\<rparr>,
        [GlobCall (hwmon_pattern (gpu_device_ids zone0 ! 0)),
         RunCall [''grep'', ''.'', ''/sys/class/drm/card0/device/hwmon/hwmon3/temp1_input'']])"
    by blast
  then show ?thesis
    by (simp add: zone0_def zone0_polled_def sample_pattern sample_py_float sample_float)
qed



end
